theory Spec2Isabelle
  imports Complex_Main
begin

section \<open>Northstar: tag angles and distance from one fiducial detection\<close>

text \<open>
  A shallow embedding of \<^verbatim>\<open>CameraMatrixTagAngleCalculator.calc_tag_angles\<close>
  (\<^verbatim>\<open>northstar/pipeline/TagAngleCalculator.py\<close>).

  Python floats and NumPy float64 values are modelled as \<^typ>\<open>real\<close>: the theorems
  below are about which values flow where and which statement raises, not about rounding;
  NaN and the infinities are not represented.
  NumPy arrays are lists: an array of shape (N, 1, 2) or (N, 2) is a list of pairs, a
  3x3 matrix is a triple of rows.
\<close>

subsection \<open>Data\<close>

type_synonym point = "real \<times> real"
type_synonym vec3 = "real \<times> real \<times> real"
type_synonym mat3 = "vec3 \<times> vec3 \<times> vec3"

text \<open>
  Exceptions. \<open>LinAlgError\<close> is what \<^verbatim>\<open>np.linalg.inv\<close> raises on a matrix it
  finds singular and \<open>IndexError\<close> what NumPy raises on a row index out of bounds; these are the
  two exceptions the statements of \<^verbatim>\<open>calc_tag_angles\<close> raise themselves.
  \<open>CvError\<close> (OpenCV's \<^verbatim>\<open>cv2.error\<close>) and \<open>PoseSolveFailure\<close> stand for what
  the two collaborators may raise. \<open>InvalidCalibration\<close> and \<open>InvalidObservation\<close>
  are the error kinds of the specification; no statement of the source raises them.
\<close>

datatype exn =
    LinAlgError
  | IndexError
  | CvError
  | PoseSolveFailure
  | InvalidCalibration
  | InvalidObservation

text \<open>
  The classes of \<^verbatim>\<open>vision_types\<close> and \<^verbatim>\<open>config.config\<close>, with the fields
  that \<^verbatim>\<open>calc_tag_angles\<close> reads or writes. Of a pose only \<^verbatim>\<open>translation()\<close>
  is read.
\<close>

record FiducialImageObservation =
  tag_id :: int
  corners :: "point list"

record Pose3d =
  translation :: vec3

record FiducialPoseObservation =
  pose_0 :: Pose3d
  error_0 :: real
  pose_1 :: Pose3d
  error_1 :: real

record LocalConfig =
  camera_matrix :: mat3
  distortion_coefficients :: "real list"

record ConfigStore =
  local_config :: LocalConfig

text \<open>
  The result has a \<open>tag_id\<close> and a \<open>corners\<close> field of its own, as in the source;
  the fields of the image observation are written with the class name in front.
\<close>

record TagAngleObservation =
  tag_id :: int
  corners :: "point list"
  distance :: real

subsection \<open>Library calls\<close>

text \<open>\<^verbatim>\<open>Translation3d.norm()\<close>: the Euclidean norm.\<close>

definition norm3 :: "vec3 \<Rightarrow> real" where
  "norm3 t = (case t of (x, y, z) \<Rightarrow> sqrt (x\<^sup>2 + y\<^sup>2 + z\<^sup>2))"

text \<open>\<^verbatim>\<open>M.dot(v)\<close> for a 3x3 matrix and a vector of three entries.\<close>

definition dot :: "mat3 \<Rightarrow> vec3 \<Rightarrow> vec3" where
  "dot M v =
     (case M of ((a, b, c), (d, e, f), (g, h, i)) \<Rightarrow>
      case v of (x, y, z) \<Rightarrow>
        (a * x + b * y + c * z, d * x + e * y + f * z, g * x + h * y + i * z))"

definition det3 :: "mat3 \<Rightarrow> real" where
  "det3 M =
     (case M of ((a, b, c), (d, e, f), (g, h, i)) \<Rightarrow>
        a * (e * i - f * h) - b * (d * i - f * g) + c * (d * h - e * g))"

text \<open>
  \<^verbatim>\<open>np.linalg.inv\<close> factorises the matrix in float64 and raises \<open>LinAlgError\<close> when
  a pivot of the factorisation is exactly zero. Whether one is depends on the rounding:
  a matrix that is singular over the reals can pass, with a tiny pivot in place of zero,
  and one that is not singular can be rejected. A model over the reals cannot compute
  this test, so it is a parameter, \<open>zero_pivot\<close>, of which nothing is assumed. For a
  matrix that passes, the result is the adjugate over the determinant: the inverse when
  the determinant is not zero (\<open>linalg_inv_left\<close> below). For a singular matrix that
  passes NumPy returns entries of no meaning, and so does the formula; no theorem below
  rests on them.
\<close>

definition linalg_inv :: "(mat3 \<Rightarrow> bool) \<Rightarrow> mat3 \<Rightarrow> exn + mat3" where
  "linalg_inv zero_pivot M =
     (case M of ((a, b, c), (d, e, f), (g, h, i)) \<Rightarrow>
        if zero_pivot M then Inl LinAlgError
        else Inr (((e * i - f * h) / det3 M, (c * h - b * i) / det3 M, (b * f - c * e) / det3 M),
                  ((f * g - d * i) / det3 M, (a * i - c * g) / det3 M, (c * d - a * f) / det3 M),
                  ((d * h - e * g) / det3 M, (b * g - a * h) / det3 M, (a * e - b * d) / det3 M)))"

text \<open>
  The two collaborators are parameters of the model as well. \<^verbatim>\<open>cv2.undistortPoints\<close> is
  OpenCV's; it is called as \<^verbatim>\<open>undistortPoints(corners, K, dist, None, K)\<close> and
  returns an array of shape (N, 1, 2), or raises.
  \<^verbatim>\<open>SquareTargetPoseEstimator.solve_fiducial_pose\<close> returns a pose observation, or
  raises.
\<close>

type_synonym undistort =
  "point list \<Rightarrow> mat3 \<Rightarrow> real list \<Rightarrow> mat3 option \<Rightarrow> mat3 \<Rightarrow> exn + point list"

type_synonym pose_solver =
  "FiducialImageObservation \<Rightarrow> ConfigStore \<Rightarrow> exn + FiducialPoseObservation"

subsection \<open>calc_tag_angles\<close>

text \<open>
  The loop of lines 30 to 33, \<^verbatim>\<open>for index, corner in enumerate(corners_undistorted)\<close>,
  over the rest of the undistorted corners, with the local array \<^verbatim>\<open>corners\<close>
  (here \<open>angles\<close>, initially \<^verbatim>\<open>np.zeros((4, 2))\<close>) as it stands.
  Each round inverts the camera matrix first; the right-hand sides of the two
  assignments are evaluated before the row \<^verbatim>\<open>corners[index]\<close> is looked up, so an
  index beyond the array raises \<open>IndexError\<close> only after the inversion succeeded.
\<close>

fun calc_angles :: "(mat3 \<Rightarrow> bool) \<Rightarrow> mat3 \<Rightarrow> nat \<Rightarrow> point list \<Rightarrow> point list \<Rightarrow> exn + point list" where
  "calc_angles zero_pivot K index [] angles = Inr angles"
| "calc_angles zero_pivot K index (corner # rest) angles =
     (case linalg_inv zero_pivot K of
        Inl e \<Rightarrow> Inl e
      | Inr Kinv \<Rightarrow>
          (case dot Kinv (fst corner, snd corner, 1) of (x, y, z) \<Rightarrow>
             if index < length angles
             then calc_angles zero_pivot K (Suc index) rest (angles[index := (arctan x, arctan y)])
             else Inl IndexError))"

definition calc_tag_angles ::
  "undistort \<Rightarrow> (mat3 \<Rightarrow> bool) \<Rightarrow> pose_solver \<Rightarrow> FiducialImageObservation \<Rightarrow> ConfigStore
     \<Rightarrow> exn + TagAngleObservation" where
  "calc_tag_angles undistortPoints zero_pivot solve_fiducial_pose image_observation config_store =
     (let K = camera_matrix (local_config config_store);
          dist_coeffs = distortion_coefficients (local_config config_store)
      in case undistortPoints (FiducialImageObservation.corners image_observation) K dist_coeffs None K of
           Inl e \<Rightarrow> Inl e
         | Inr corners_undistorted \<Rightarrow>
             (case calc_angles zero_pivot K 0 corners_undistorted (replicate 4 (0, 0)) of
                Inl e \<Rightarrow> Inl e
              | Inr angles \<Rightarrow>
                  (case solve_fiducial_pose image_observation config_store of
                     Inl e \<Rightarrow> Inl e
                   | Inr pose_observation \<Rightarrow>
                       Inr \<lparr>tag_id = FiducialImageObservation.tag_id image_observation,
                            corners = angles,
                            distance =
                              (if error_0 pose_observation < error_1 pose_observation
                               then norm3 (translation (pose_0 pose_observation))
                               else norm3 (translation (pose_1 pose_observation)))\<rparr>)))"

subsection \<open>The bearing of one corner\<close>

text \<open>
  The bearing as the specification words it (section 4.1, steps 2 and 3): for an
  undistorted pixel coordinate \<open>(u, v)\<close>, the homogeneous vector \<open>(u, v, 1)\<close> is
  multiplied from the left by the inverse intrinsic matrix, which gives \<open>(x, y, z)\<close>;
  the azimuth is \<open>atan x\<close> and the elevation \<open>atan y\<close>. The theorems below compare the
  rows that the loop writes with this function.
\<close>

definition spec_bearing :: "mat3 \<Rightarrow> point \<Rightarrow> point" where
  "spec_bearing Kinv p =
     (case p of (u, v) \<Rightarrow> case dot Kinv (u, v, 1) of (x, y, z) \<Rightarrow> (arctan x, arctan y))"

subsection \<open>Example inputs\<close>

text \<open>
  The inputs of the specification's example scenarios: the identity intrinsic matrix
  with zero distortion, the small square around the optical axis, and pose observations
  with translation norms 2 and 2.5 (fit-errors 0.01 and 0.02), the same two hypotheses
  in the other order, and two hypotheses of equal fit-error; an intrinsic matrix with a
  zero row, and one whose first two rows are proportional; observations of three and of
  five corners. In the examples \<open>undistort_unchanged\<close> stands in for
  \<^verbatim>\<open>cv2.undistortPoints\<close> (it returns the points it is given), and the pose solver
  returns a given observation or raises a given exception.

  In the examples \<open>zero_row\<close> stands in for the test of \<^verbatim>\<open>np.linalg.inv\<close>. On the
  three matrices of the examples it answers as NumPy does: the factorisation of a matrix
  with a zero row ends in a pivot that is exactly zero; the pivots of the identity matrix
  are 1; and for the rows (3, 3, 0), (5, 5, 0), (0, 0, 1), a singular matrix, the
  factorisation exchanges the first two rows, multiplies by the rounded 3 * (1 / 5) and
  is left with the second pivot 3 - 3.0000000000000004, which is not zero.
\<close>

definition zero_row :: "mat3 \<Rightarrow> bool" where
  "zero_row M = (case M of (r1, r2, r3) \<Rightarrow> r1 = (0, 0, 0) \<or> r2 = (0, 0, 0) \<or> r3 = (0, 0, 0))"

definition identity_matrix :: mat3 where
  "identity_matrix = ((1, 0, 0), (0, 1, 0), (0, 0, 1))"

definition identity_config :: ConfigStore where
  "identity_config =
     \<lparr>local_config = \<lparr>camera_matrix = identity_matrix, distortion_coefficients = [0, 0, 0, 0, 0]\<rparr>\<rparr>"

definition square_observation :: FiducialImageObservation where
  "square_observation =
     \<lparr>FiducialImageObservation.tag_id = 7,
      FiducialImageObservation.corners = [(- 1/10, - 1/10), (1/10, - 1/10), (1/10, 1/10), (- 1/10, 1/10)]\<rparr>"

definition undistort_unchanged :: undistort where
  "undistort_unchanged points K dist_coeffs R P = Inr points"

definition solver_returns :: "FiducialPoseObservation \<Rightarrow> pose_solver" where
  "solver_returns p image_observation config_store = Inr p"

definition solver_raises :: "exn \<Rightarrow> pose_solver" where
  "solver_raises e image_observation config_store = Inl e"

definition example_poses :: FiducialPoseObservation where
  "example_poses =
     \<lparr>pose_0 = \<lparr>translation = (0, 0, 2)\<rparr>, error_0 = 1/100,
      pose_1 = \<lparr>translation = (0, 0, 5/2)\<rparr>, error_1 = 2/100\<rparr>"

definition swapped_poses :: FiducialPoseObservation where
  "swapped_poses =
     \<lparr>pose_0 = \<lparr>translation = (0, 0, 5/2)\<rparr>, error_0 = 2/100,
      pose_1 = \<lparr>translation = (0, 0, 2)\<rparr>, error_1 = 1/100\<rparr>"

definition tied_poses :: FiducialPoseObservation where
  "tied_poses =
     \<lparr>pose_0 = \<lparr>translation = (0, 0, 2)\<rparr>, error_0 = 1/100,
      pose_1 = \<lparr>translation = (0, 0, 3)\<rparr>, error_1 = 1/100\<rparr>"

definition singular_matrix :: mat3 where
  "singular_matrix = ((0, 0, 0), (0, 1, 0), (0, 0, 1))"

definition singular_config :: ConfigStore where
  "singular_config =
     \<lparr>local_config = \<lparr>camera_matrix = singular_matrix, distortion_coefficients = [0, 0, 0, 0, 0]\<rparr>\<rparr>"

definition proportional_rows_matrix :: mat3 where
  "proportional_rows_matrix = ((3, 3, 0), (5, 5, 0), (0, 0, 1))"

definition proportional_rows_config :: ConfigStore where
  "proportional_rows_config =
     \<lparr>local_config =
        \<lparr>camera_matrix = proportional_rows_matrix, distortion_coefficients = [0, 0, 0, 0, 0]\<rparr>\<rparr>"

definition three_corner_observation :: FiducialImageObservation where
  "three_corner_observation =
     \<lparr>FiducialImageObservation.tag_id = 7,
      FiducialImageObservation.corners = [(- 1/10, - 1/10), (1/10, - 1/10), (1/10, 1/10)]\<rparr>"

definition five_corner_observation :: FiducialImageObservation where
  "five_corner_observation =
     \<lparr>FiducialImageObservation.tag_id = 7,
      FiducialImageObservation.corners =
        [(- 1/10, - 1/10), (1/10, - 1/10), (1/10, 1/10), (- 1/10, 1/10), (0, 0)]\<rparr>"

subsection \<open>The loop over the undistorted corners\<close>

lemma calc_angles_singular:
  "linalg_inv zero_pivot K = Inl e \<Longrightarrow> und \<noteq> [] \<Longrightarrow> calc_angles zero_pivot K index und angles = Inl e"
  by (cases und) simp_all

lemma linalg_inv_singular: "zero_pivot K \<Longrightarrow> linalg_inv zero_pivot K = Inl LinAlgError"
  by (simp add: linalg_inv_def split: prod.splits)

lemma linalg_inv_regular: "linalg_inv zero_pivot K = Inr Kinv \<Longrightarrow> \<not> zero_pivot K"
  by (auto simp: linalg_inv_def split: prod.splits if_splits)

lemma linalg_inv_passes: "\<not> zero_pivot K \<Longrightarrow> \<exists>Kinv. linalg_inv zero_pivot K = Inr Kinv"
  by (simp add: linalg_inv_def split: prod.splits)

lemma calc_angles_fits:
  "linalg_inv zero_pivot K = Inr Kinv \<Longrightarrow> index + length und \<le> length angles \<Longrightarrow>
   calc_angles zero_pivot K index und angles =
     Inr (take index angles @ map (spec_bearing Kinv) und @ drop (index + length und) angles)"
proof (induction und arbitrary: index angles)
  case Nil
  then show ?case by simp
next
  case (Cons corner rest)
  have lt: "index < length angles" using Cons.prems(2) by simp
  obtain x y z where d: "dot Kinv (fst corner, snd corner, 1) = (x, y, z)"
    by (cases "dot Kinv (fst corner, snd corner, 1)") auto
  have sb: "spec_bearing Kinv corner = (arctan x, arctan y)"
    using d by (cases corner) (simp add: spec_bearing_def)
  have "calc_angles zero_pivot K index (corner # rest) angles =
        calc_angles zero_pivot K (Suc index) rest (angles[index := (arctan x, arctan y)])"
    using Cons.prems(1) d lt by simp
  also have "\<dots> = Inr (take (Suc index) (angles[index := (arctan x, arctan y)]) @
                     map (spec_bearing Kinv) rest @
                     drop (Suc index + length rest) (angles[index := (arctan x, arctan y)]))"
    using Cons.IH [OF Cons.prems(1), of "Suc index" "angles[index := (arctan x, arctan y)]"]
      Cons.prems(2) by simp
  also have "take (Suc index) (angles[index := (arctan x, arctan y)]) =
             take index angles @ [(arctan x, arctan y)]"
    using lt by (simp add: take_Suc_conv_app_nth)
  finally show ?case using sb by simp
qed

lemma calc_angles_overflow:
  "linalg_inv zero_pivot K = Inr Kinv \<Longrightarrow> index \<le> length angles \<Longrightarrow> length angles < index + length und \<Longrightarrow>
   calc_angles zero_pivot K index und angles = Inl IndexError"
proof (induction und arbitrary: index angles)
  case Nil
  then show ?case by simp
next
  case (Cons corner rest)
  show ?case
  proof (cases "index < length angles")
    case True
    then show ?thesis
      using Cons.IH [OF Cons.prems(1), of "Suc index" "angles[index := spec_bearing Kinv corner]"]
        Cons.prems
      by (simp add: spec_bearing_def split: prod.splits)
  next
    case False
    then show ?thesis using Cons.prems(1) by (simp split: prod.splits)
  qed
qed

lemma calc_angles_InrD:
  "calc_angles zero_pivot K index und angles = Inr out \<Longrightarrow> und \<noteq> [] \<Longrightarrow> index \<le> length angles \<Longrightarrow>
   (\<exists>Kinv. linalg_inv zero_pivot K = Inr Kinv) \<and> index + length und \<le> length angles"
proof -
  assume a: "calc_angles zero_pivot K index und angles = Inr out" and ne: "und \<noteq> []"
    and le: "index \<le> length angles"
  show ?thesis
  proof (cases "linalg_inv zero_pivot K")
    case (Inl e)
    then show ?thesis using calc_angles_singular [OF Inl ne] a by simp
  next
    case (Inr Kinv)
    have "\<not> length angles < index + length und"
      using calc_angles_overflow [OF Inr le] a by fastforce
    then show ?thesis using Inr by (intro conjI exI [of _ Kinv]) simp_all
  qed
qed

lemma calc_tag_angles_InrD:
  assumes "calc_tag_angles undistortPoints zero_pivot solve_fiducial_pose image_observation config_store = Inr out"
  obtains und angles p where
    "undistortPoints (FiducialImageObservation.corners image_observation)
       (camera_matrix (local_config config_store))
       (distortion_coefficients (local_config config_store)) None
       (camera_matrix (local_config config_store)) = Inr und"
    "calc_angles zero_pivot (camera_matrix (local_config config_store)) 0 und (replicate 4 (0, 0)) = Inr angles"
    "solve_fiducial_pose image_observation config_store = Inr p"
    "out = \<lparr>tag_id = FiducialImageObservation.tag_id image_observation, corners = angles,
            distance = (if error_0 p < error_1 p then norm3 (translation (pose_0 p))
                        else norm3 (translation (pose_1 p)))\<rparr>"
  using assms unfolding calc_tag_angles_def Let_def
  by (auto split: sum.splits)

lemma norm3_axis: "norm3 (0, 0, z) = \<bar>z\<bar>"
  by (simp add: norm3_def)

lemma linalg_inv_identity: "linalg_inv zero_row identity_matrix = Inr identity_matrix"
  by (simp add: linalg_inv_def identity_matrix_def det3_def zero_row_def)

lemma dot_identity: "dot identity_matrix v = v"
  by (cases v) (simp add: dot_def identity_matrix_def)

lemma spec_bearing_identity: "spec_bearing identity_matrix (u, v) = (arctan u, arctan v)"
  by (simp add: spec_bearing_def dot_identity)

lemma square_angles:
  "calc_angles zero_row identity_matrix 0 (FiducialImageObservation.corners square_observation)
     (replicate 4 (0, 0)) =
   Inr [(arctan (- 1/10), arctan (- 1/10)), (arctan (1/10), arctan (- 1/10)),
        (arctan (1/10), arctan (1/10)), (arctan (- 1/10), arctan (1/10))]"
  using calc_angles_fits [OF linalg_inv_identity, of 0
      "FiducialImageObservation.corners square_observation" "replicate 4 (0, 0)"]
  by (simp add: square_observation_def spec_bearing_identity)

lemma square_result:
  "calc_tag_angles undistort_unchanged zero_row (solver_returns p) square_observation identity_config =
   Inr \<lparr>tag_id = 7,
        corners = [(arctan (- 1/10), arctan (- 1/10)), (arctan (1/10), arctan (- 1/10)),
                   (arctan (1/10), arctan (1/10)), (arctan (- 1/10), arctan (1/10))],
        distance = (if error_0 p < error_1 p then norm3 (translation (pose_0 p))
                    else norm3 (translation (pose_1 p)))\<rparr>"
  using square_angles
  by (simp add: calc_tag_angles_def undistort_unchanged_def solver_returns_def identity_config_def
      square_observation_def)

lemma calc_angles_zeros:
  assumes "linalg_inv zero_pivot K = Inr Kinv" and "length und \<le> 4"
  shows "calc_angles zero_pivot K 0 und (replicate 4 (0, 0)) =
         Inr (map (spec_bearing Kinv) und @ replicate (4 - length und) (0, 0))"
  using calc_angles_fits [OF assms(1), of 0 und "replicate 4 (0, 0)"] assms(2) by simp

lemma calc_tag_angles_fits:
  assumes "undistortPoints (FiducialImageObservation.corners image_observation)
             (camera_matrix (local_config config_store))
             (distortion_coefficients (local_config config_store)) None
             (camera_matrix (local_config config_store)) = Inr und"
    and "linalg_inv zero_pivot (camera_matrix (local_config config_store)) = Inr Kinv"
    and "length und \<le> 4"
  shows "calc_tag_angles undistortPoints zero_pivot solve_fiducial_pose image_observation config_store =
         (case solve_fiducial_pose image_observation config_store of
            Inl e \<Rightarrow> Inl e
          | Inr p \<Rightarrow>
              Inr \<lparr>tag_id = FiducialImageObservation.tag_id image_observation,
                   corners = map (spec_bearing Kinv) und @ replicate (4 - length und) (0, 0),
                   distance = (if error_0 p < error_1 p then norm3 (translation (pose_0 p))
                               else norm3 (translation (pose_1 p)))\<rparr>)"
  using assms(1) calc_angles_zeros [OF assms(2,3)]
  by (simp add: calc_tag_angles_def Let_def split: sum.splits)

lemma linalg_inv_singular_matrix: "linalg_inv zero_row singular_matrix = Inl LinAlgError"
  by (simp add: linalg_inv_def singular_matrix_def zero_row_def)

lemma calc_tag_angles_singular:
  assumes "undistortPoints (FiducialImageObservation.corners image_observation)
             (camera_matrix (local_config config_store))
             (distortion_coefficients (local_config config_store)) None
             (camera_matrix (local_config config_store)) = Inr und"
    and "linalg_inv zero_pivot (camera_matrix (local_config config_store)) = Inl e"
    and "und \<noteq> []"
  shows "calc_tag_angles undistortPoints zero_pivot solve_fiducial_pose image_observation config_store = Inl e"
  using assms(1) calc_angles_singular [OF assms(2,3)]
  by (simp add: calc_tag_angles_def Let_def)

lemma calc_tag_angles_overflow:
  assumes "undistortPoints (FiducialImageObservation.corners image_observation)
             (camera_matrix (local_config config_store))
             (distortion_coefficients (local_config config_store)) None
             (camera_matrix (local_config config_store)) = Inr und"
    and "linalg_inv zero_pivot (camera_matrix (local_config config_store)) = Inr Kinv"
    and "4 < length und"
  shows "calc_tag_angles undistortPoints zero_pivot solve_fiducial_pose image_observation config_store =
         Inl IndexError"
  using assms(1) calc_angles_overflow [OF assms(2), of 0 "replicate 4 (0, 0)" und] assms(3)
  by (simp add: calc_tag_angles_def Let_def)

lemma five_corner_result:
  "calc_tag_angles undistort_unchanged zero_row solve_fiducial_pose five_corner_observation identity_config =
   Inl IndexError"
proof -
  have u: "undistort_unchanged (FiducialImageObservation.corners five_corner_observation)
             (camera_matrix (local_config identity_config))
             (distortion_coefficients (local_config identity_config)) None
             (camera_matrix (local_config identity_config))
           = Inr (FiducialImageObservation.corners five_corner_observation)"
    by (simp add: undistort_unchanged_def)
  have k: "linalg_inv zero_row (camera_matrix (local_config identity_config)) = Inr identity_matrix"
    by (simp add: identity_config_def linalg_inv_identity)
  show ?thesis
    using calc_tag_angles_overflow [where undistortPoints = undistort_unchanged and zero_pivot = zero_row
        and image_observation = five_corner_observation and config_store = identity_config, OF u k]
    by (simp add: five_corner_observation_def)
qed

lemma three_corner_result:
  "calc_tag_angles undistort_unchanged zero_row (solver_returns p) three_corner_observation identity_config =
   Inr \<lparr>tag_id = 7,
        corners = [(arctan (- 1/10), arctan (- 1/10)), (arctan (1/10), arctan (- 1/10)),
                   (arctan (1/10), arctan (1/10)), (0, 0)],
        distance = (if error_0 p < error_1 p then norm3 (translation (pose_0 p))
                    else norm3 (translation (pose_1 p)))\<rparr>"
proof -
  have u: "undistort_unchanged (FiducialImageObservation.corners three_corner_observation)
             (camera_matrix (local_config identity_config))
             (distortion_coefficients (local_config identity_config)) None
             (camera_matrix (local_config identity_config))
           = Inr (FiducialImageObservation.corners three_corner_observation)"
    by (simp add: undistort_unchanged_def)
  have k: "linalg_inv zero_row (camera_matrix (local_config identity_config)) = Inr identity_matrix"
    by (simp add: identity_config_def linalg_inv_identity)
  have l: "length (FiducialImageObservation.corners three_corner_observation) \<le> 4"
    by (simp add: three_corner_observation_def)
  show ?thesis
    using calc_tag_angles_fits [where undistortPoints = undistort_unchanged and zero_pivot = zero_row
        and image_observation = three_corner_observation and config_store = identity_config
        and solve_fiducial_pose = "solver_returns p", OF u k l]
    by (simp add: solver_returns_def three_corner_observation_def spec_bearing_identity
        numeral_eq_Suc)
qed

text \<open>
  For a camera matrix whose determinant is not zero, the matrix that \<open>linalg_inv\<close>
  returns is the inverse: multiplying by the camera matrix and then by it gives back
  every vector.
\<close>

lemma linalg_inv_left:
  assumes "linalg_inv zero_pivot K = Inr Kinv" and "det3 K \<noteq> 0"
  shows "dot Kinv (dot K v) = v"
proof -
  obtain a b c d e f g h i where K: "K = ((a, b, c), (d, e, f), (g, h, i))"
    by (metis prod_cases3)
  obtain x y z where v: "v = (x, y, z)" by (metis prod_cases3)
  define D where "D = det3 K"
  have D0: "D \<noteq> 0" using assms(2) by (simp add: D_def)
  have Dv: "D = a * (e * i - f * h) - b * (d * i - f * g) + c * (d * h - e * g)"
    by (simp add: D_def K det3_def)
  have Kinv: "Kinv = (((e * i - f * h) / D, (c * h - b * i) / D, (b * f - c * e) / D),
                  ((f * g - d * i) / D, (a * i - c * g) / D, (c * d - a * f) / D),
                  ((d * h - e * g) / D, (b * g - a * h) / D, (a * e - b * d) / D))"
    using assms(1) by (simp add: linalg_inv_def K D_def split: if_splits)
  have 1: "((e * i - f * h) * (a * x + b * y + c * z) + (c * h - b * i) * (d * x + e * y + f * z)
            + (b * f - c * e) * (g * x + h * y + i * z)) = D * x"
    unfolding Dv by (simp add: algebra_simps)
  have 2: "((f * g - d * i) * (a * x + b * y + c * z) + (a * i - c * g) * (d * x + e * y + f * z)
            + (c * d - a * f) * (g * x + h * y + i * z)) = D * y"
    unfolding Dv by (simp add: algebra_simps)
  have 3: "((d * h - e * g) * (a * x + b * y + c * z) + (b * g - a * h) * (d * x + e * y + f * z)
            + (a * e - b * d) * (g * x + h * y + i * z)) = D * z"
    unfolding Dv by (simp add: algebra_simps)
  have "dot Kinv (dot K v) =
        (((e * i - f * h) * (a * x + b * y + c * z) + (c * h - b * i) * (d * x + e * y + f * z)
            + (b * f - c * e) * (g * x + h * y + i * z)) / D,
         ((f * g - d * i) * (a * x + b * y + c * z) + (a * i - c * g) * (d * x + e * y + f * z)
            + (c * d - a * f) * (g * x + h * y + i * z)) / D,
         ((d * h - e * g) * (a * x + b * y + c * z) + (b * g - a * h) * (d * x + e * y + f * z)
            + (a * e - b * d) * (g * x + h * y + i * z)) / D)"
    by (simp add: Kinv K v dot_def add_divide_distrib)
  also have "\<dots> = (x, y, z)" unfolding 1 2 3 using D0 by simp
  finally show ?thesis using v by simp
qed

subsection \<open>Selecting the pose hypothesis\<close>

text \<open>
  C1 (as amended). When the two fit-errors of the pose observation are exactly equal,
  the comparison \<^verbatim>\<open>error_0 < error_1\<close> of line 38 is false and the else branch runs:
  the returned distance is the Euclidean norm of the translation of hypothesis 1.
\<close>

theorem tie_selects_hypothesis_1:
  assumes "solve_fiducial_pose image_observation config_store = Inr p"
    and "error_0 p = error_1 p"
    and "calc_tag_angles undistortPoints zero_pivot solve_fiducial_pose image_observation config_store = Inr out"
  shows "distance out = norm3 (translation (pose_1 p))"
  using assms(3)
proof (rule calc_tag_angles_InrD)
  fix und angles q
  assume "solve_fiducial_pose image_observation config_store = Inr q"
    and "out = \<lparr>tag_id = FiducialImageObservation.tag_id image_observation, corners = angles,
            distance = (if error_0 q < error_1 q then norm3 (translation (pose_0 q))
                        else norm3 (translation (pose_1 q)))\<rparr>"
  then show ?thesis using assms(1,2) by simp
qed

theorem tie_selects_hypothesis_1_witness:
  "error_0 tied_poses = error_1 tied_poses \<and>
   distance (projr (calc_tag_angles undistort_unchanged zero_row (solver_returns tied_poses)
     square_observation identity_config)) = 3"
proof -
  have e: "error_0 tied_poses = error_1 tied_poses" by (simp add: tied_poses_def)
  have s: "solver_returns tied_poses square_observation identity_config = Inr tied_poses"
    by (simp add: solver_returns_def)
  show ?thesis
    using tie_selects_hypothesis_1 [OF s e square_result [of tied_poses]] e
    by (simp add: square_result) (simp add: tied_poses_def norm3_axis)
qed

text \<open>
  C1 as stated fails: with two hypotheses of fit-error 0.01 each, at distances 2 and 3,
  the call returns an observation whose distance is not the norm of hypothesis 0.
\<close>

theorem tie_selects_hypothesis_0_counterexample:
  "error_0 tied_poses = error_1 tied_poses \<and>
   \<not> isl (calc_tag_angles undistort_unchanged zero_row (solver_returns tied_poses)
     square_observation identity_config) \<and>
   distance (projr (calc_tag_angles undistort_unchanged zero_row (solver_returns tied_poses)
     square_observation identity_config)) \<noteq> norm3 (translation (pose_0 tied_poses))"
  by (simp add: square_result) (simp add: tied_poses_def norm3_axis)

text \<open>
  C2. When the two fit-errors differ, the returned distance is the Euclidean norm of the
  translation of the hypothesis with the strictly lower fit-error. The example of the
  specification (norms 2.0 and 2.5, errors 0.01 and 0.02) gives distance 2.0, in
  either order of the two hypotheses.
\<close>

theorem lower_error_selected:
  assumes "solve_fiducial_pose image_observation config_store = Inr p"
    and "error_0 p \<noteq> error_1 p"
    and "calc_tag_angles undistortPoints zero_pivot solve_fiducial_pose image_observation config_store = Inr out"
  shows "(error_0 p < error_1 p \<longrightarrow> distance out = norm3 (translation (pose_0 p))) \<and>
         (error_1 p < error_0 p \<longrightarrow> distance out = norm3 (translation (pose_1 p)))"
  using assms(3)
proof (rule calc_tag_angles_InrD)
  fix und angles q
  assume "solve_fiducial_pose image_observation config_store = Inr q"
    and "out = \<lparr>tag_id = FiducialImageObservation.tag_id image_observation, corners = angles,
            distance = (if error_0 q < error_1 q then norm3 (translation (pose_0 q))
                        else norm3 (translation (pose_1 q)))\<rparr>"
  then show ?thesis using assms(1) by auto
qed

theorem lower_error_selected_witness:
  "error_0 example_poses < error_1 example_poses \<and>
   norm3 (translation (pose_0 example_poses)) = 2 \<and>
   norm3 (translation (pose_1 example_poses)) = 5/2 \<and>
   distance (projr (calc_tag_angles undistort_unchanged zero_row (solver_returns example_poses)
     square_observation identity_config)) = 2 \<and>
   error_1 swapped_poses < error_0 swapped_poses \<and>
   distance (projr (calc_tag_angles undistort_unchanged zero_row (solver_returns swapped_poses)
     square_observation identity_config)) = 2"
proof -
  have e: "error_0 example_poses \<noteq> error_1 example_poses" by (simp add: example_poses_def)
  have e': "error_0 swapped_poses \<noteq> error_1 swapped_poses" by (simp add: swapped_poses_def)
  have s: "solver_returns q square_observation identity_config = Inr q" for q
    by (simp add: solver_returns_def)
  have a: "distance (projr (calc_tag_angles undistort_unchanged zero_row (solver_returns example_poses)
     square_observation identity_config)) = norm3 (translation (pose_0 example_poses))"
    using lower_error_selected [OF s e square_result [of example_poses]]
    by (simp add: square_result example_poses_def)
  have b: "distance (projr (calc_tag_angles undistort_unchanged zero_row (solver_returns swapped_poses)
     square_observation identity_config)) = norm3 (translation (pose_1 swapped_poses))"
    using lower_error_selected [OF s e' square_result [of swapped_poses]]
    by (simp add: square_result swapped_poses_def)
  show ?thesis
    unfolding a b by (simp add: example_poses_def swapped_poses_def norm3_axis)
qed

subsection \<open>Bearings\<close>

text \<open>
  C3. Whenever the call returns, row \<open>i\<close> of the bearing array is \<open>(atan x, atan y)\<close>,
  where \<open>(x, y, z)\<close> is the inverse of the intrinsic matrix applied to \<open>(u, v, 1)\<close> and
  \<open>(u, v)\<close> is the \<open>i\<close>-th undistorted corner. The matrix applied is the one that
  \<^verbatim>\<open>np.linalg.inv\<close> returned, which for an intrinsic matrix of non-zero determinant
  is the inverse indeed.
  In the example of the specification (identity intrinsic matrix, zero distortion, so
  that undistortion leaves the corners as they are) the corner \<open>(-0.1, -0.1)\<close> gives
  \<open>(atan (-0.1), atan (-0.1))\<close>.
\<close>

theorem bearing_of_undistorted_corner:
  assumes "undistortPoints (FiducialImageObservation.corners image_observation)
             (camera_matrix (local_config config_store))
             (distortion_coefficients (local_config config_store)) None
             (camera_matrix (local_config config_store)) = Inr und"
    and "calc_tag_angles undistortPoints zero_pivot solve_fiducial_pose image_observation config_store = Inr out"
    and "i < length und"
  shows "\<exists>Kinv. linalg_inv zero_pivot (camera_matrix (local_config config_store)) = Inr Kinv \<and>
           (det3 (camera_matrix (local_config config_store)) \<noteq> 0 \<longrightarrow>
              (\<forall>v. dot Kinv (dot (camera_matrix (local_config config_store)) v) = v)) \<and>
           corners out ! i =
             (case dot Kinv (fst (und ! i), snd (und ! i), 1) of (x, y, z) \<Rightarrow> (arctan x, arctan y))"
  using assms(2)
proof (rule calc_tag_angles_InrD)
  fix und' angles and p :: FiducialPoseObservation
  assume u: "undistortPoints (FiducialImageObservation.corners image_observation)
       (camera_matrix (local_config config_store))
       (distortion_coefficients (local_config config_store)) None
       (camera_matrix (local_config config_store)) = Inr und'"
    and a: "calc_angles zero_pivot (camera_matrix (local_config config_store)) 0 und' (replicate 4 (0, 0)) = Inr angles"
    and o: "out = \<lparr>tag_id = FiducialImageObservation.tag_id image_observation, corners = angles,
            distance = (if error_0 p < error_1 p then norm3 (translation (pose_0 p))
                        else norm3 (translation (pose_1 p)))\<rparr>"
  have eq: "und' = und" using u assms(1) by simp
  have ne: "und \<noteq> []" using assms(3) by auto
  obtain Kinv where inv: "linalg_inv zero_pivot (camera_matrix (local_config config_store)) = Inr Kinv"
    and len: "length und \<le> 4"
    using calc_angles_InrD [OF a [unfolded eq] ne] by auto
  have "angles = map (spec_bearing Kinv) und @ replicate (4 - length und) (0, 0)"
    using calc_angles_zeros [OF inv len] a eq by simp
  then have "corners out ! i = spec_bearing Kinv (und ! i)"
    using o assms(3) by (simp add: nth_append)
  then have "corners out ! i =
             (case dot Kinv (fst (und ! i), snd (und ! i), 1) of (x, y, z) \<Rightarrow> (arctan x, arctan y))"
    by (simp add: spec_bearing_def split: prod.splits)
  then show ?thesis using inv linalg_inv_left [OF inv] by blast
qed

theorem bearing_of_undistorted_corner_witness:
  "corners (projr (calc_tag_angles undistort_unchanged zero_row (solver_returns example_poses)
     square_observation identity_config)) ! 0 = (arctan (- 1/10), arctan (- 1/10))"
proof -
  have u: "undistort_unchanged (FiducialImageObservation.corners square_observation)
             (camera_matrix (local_config identity_config))
             (distortion_coefficients (local_config identity_config)) None
             (camera_matrix (local_config identity_config))
           = Inr [(- 1/10, - 1/10), (1/10, - 1/10), (1/10, 1/10), (- 1/10, 1/10)]"
    by (simp add: undistort_unchanged_def square_observation_def)
  have i: "(0::nat) < length [(- 1/10, - 1/10), (1/10, - 1/10), (1/10, 1/10), (- 1/10, 1/10 :: real)]"
    by simp
  have k: "camera_matrix (local_config identity_config) = identity_matrix"
    by (simp add: identity_config_def)
  show ?thesis
    using bearing_of_undistorted_corner [where undistortPoints = undistort_unchanged and zero_pivot = zero_row
        and image_observation = square_observation and config_store = identity_config
        and solve_fiducial_pose = "solver_returns example_poses",
        OF u square_result [of example_poses] i]
    by (simp add: square_result k linalg_inv_identity dot_identity)
qed

text \<open>
  C8. On a valid input of four corners (\<^verbatim>\<open>np.linalg.inv\<close> inverts the intrinsic
  matrix, the pose solver returns, and undistortion maps the corners one by one, in
  order), the bearing
  array has four rows and row \<open>i\<close> is the bearing of the undistorted \<open>i\<close>-th input
  corner, for each \<open>i\<close> from 0 to 3.
\<close>

theorem corner_order_preserved:
  assumes "undistortPoints (FiducialImageObservation.corners image_observation)
             (camera_matrix (local_config config_store))
             (distortion_coefficients (local_config config_store)) None
             (camera_matrix (local_config config_store)) =
           Inr (map undistort_point (FiducialImageObservation.corners image_observation))"
    and "length (FiducialImageObservation.corners image_observation) = 4"
    and "linalg_inv zero_pivot (camera_matrix (local_config config_store)) = Inr Kinv"
    and "solve_fiducial_pose image_observation config_store = Inr p"
  shows "\<exists>out. calc_tag_angles undistortPoints zero_pivot solve_fiducial_pose image_observation config_store
               = Inr out \<and>
           length (corners out) = 4 \<and>
           (\<forall>i<4. corners out ! i =
              spec_bearing Kinv
                (undistort_point (FiducialImageObservation.corners image_observation ! i)))"
proof -
  have l: "length (map undistort_point (FiducialImageObservation.corners image_observation)) \<le> 4"
    using assms(2) by simp
  show ?thesis
    using calc_tag_angles_fits [where undistortPoints = undistortPoints and zero_pivot = zero_pivot
        and image_observation = image_observation and config_store = config_store
        and solve_fiducial_pose = solve_fiducial_pose, OF assms(1) assms(3) l] assms(2,4)
    by simp
qed

theorem corner_order_preserved_witness:
  "length (corners (projr (calc_tag_angles undistort_unchanged zero_row (solver_returns example_poses)
     square_observation identity_config))) = 4 \<and>
   corners (projr (calc_tag_angles undistort_unchanged zero_row (solver_returns example_poses)
     square_observation identity_config)) ! 0 = spec_bearing identity_matrix (- 1/10, - 1/10) \<and>
   corners (projr (calc_tag_angles undistort_unchanged zero_row (solver_returns example_poses)
     square_observation identity_config)) ! 1 = spec_bearing identity_matrix (1/10, - 1/10) \<and>
   corners (projr (calc_tag_angles undistort_unchanged zero_row (solver_returns example_poses)
     square_observation identity_config)) ! 2 = spec_bearing identity_matrix (1/10, 1/10) \<and>
   corners (projr (calc_tag_angles undistort_unchanged zero_row (solver_returns example_poses)
     square_observation identity_config)) ! 3 = spec_bearing identity_matrix (- 1/10, 1/10)"
proof -
  have u: "undistort_unchanged (FiducialImageObservation.corners square_observation)
             (camera_matrix (local_config identity_config))
             (distortion_coefficients (local_config identity_config)) None
             (camera_matrix (local_config identity_config))
           = Inr (map (\<lambda>c. c) (FiducialImageObservation.corners square_observation))"
    by (simp add: undistort_unchanged_def)
  have l: "length (FiducialImageObservation.corners square_observation) = 4"
    by (simp add: square_observation_def)
  have k: "linalg_inv zero_row (camera_matrix (local_config identity_config)) = Inr identity_matrix"
    by (simp add: identity_config_def linalg_inv_identity)
  have s: "solver_returns example_poses square_observation identity_config = Inr example_poses"
    by (simp add: solver_returns_def)
  obtain out where o: "calc_tag_angles undistort_unchanged zero_row (solver_returns example_poses)
        square_observation identity_config = Inr out"
    and len: "length (corners out) = 4"
    and rows: "\<And>i. i < 4 \<Longrightarrow> corners out ! i =
              spec_bearing identity_matrix (FiducialImageObservation.corners square_observation ! i)"
    using corner_order_preserved [where undistortPoints = undistort_unchanged and zero_pivot = zero_row
        and image_observation = square_observation and config_store = identity_config
        and solve_fiducial_pose = "solver_returns example_poses"
        and undistort_point = "\<lambda>c. c", OF u l k s]
    by auto
  have r: "corners out ! 0 = spec_bearing identity_matrix (- 1/10, - 1/10)"
    "corners out ! 1 = spec_bearing identity_matrix (1/10, - 1/10)"
    "corners out ! 2 = spec_bearing identity_matrix (1/10, 1/10)"
    "corners out ! 3 = spec_bearing identity_matrix (- 1/10, 1/10)"
    using rows [of 0] rows [of 1] rows [of 2] rows [of 3]
    by (simp_all add: square_observation_def)
  show ?thesis
    unfolding o using len r by simp
qed

text \<open>
  C10 (as amended). With fewer than four corners, when undistortion returns one point
  for each, \<^verbatim>\<open>np.linalg.inv\<close> returns a matrix for the intrinsic matrix, and the pose
  solver returns, the call raises nothing: it returns an observation whose bearing
  array has four rows, the first ones the bearings of the corners supplied and every
  row after them still \<open>(0, 0)\<close>.
\<close>

theorem fewer_corners_zero_rows:
  assumes "undistortPoints (FiducialImageObservation.corners image_observation)
             (camera_matrix (local_config config_store))
             (distortion_coefficients (local_config config_store)) None
             (camera_matrix (local_config config_store)) = Inr und"
    and "length und = length (FiducialImageObservation.corners image_observation)"
    and "length (FiducialImageObservation.corners image_observation) < 4"
    and "linalg_inv zero_pivot (camera_matrix (local_config config_store)) = Inr Kinv"
    and "solve_fiducial_pose image_observation config_store = Inr p"
  shows "\<exists>out. calc_tag_angles undistortPoints zero_pivot solve_fiducial_pose image_observation config_store
               = Inr out \<and>
           length (corners out) = 4 \<and>
           (\<forall>i. i < length und \<longrightarrow> corners out ! i = spec_bearing Kinv (und ! i)) \<and>
           (\<forall>i. length und \<le> i \<and> i < 4 \<longrightarrow> corners out ! i = (0, 0))"
proof -
  have l: "length und \<le> 4" using assms(2,3) by simp
  show ?thesis
    using calc_tag_angles_fits [where undistortPoints = undistortPoints and zero_pivot = zero_pivot
        and image_observation = image_observation and config_store = config_store
        and solve_fiducial_pose = solve_fiducial_pose, OF assms(1) assms(4) l] assms(5) l
    by (auto simp: nth_append)
qed

theorem fewer_corners_zero_rows_witness:
  "length (FiducialImageObservation.corners three_corner_observation) < 4 \<and>
   \<not> isl (calc_tag_angles undistort_unchanged zero_row (solver_returns example_poses)
     three_corner_observation identity_config) \<and>
   length (corners (projr (calc_tag_angles undistort_unchanged zero_row (solver_returns example_poses)
     three_corner_observation identity_config))) = 4 \<and>
   corners (projr (calc_tag_angles undistort_unchanged zero_row (solver_returns example_poses)
     three_corner_observation identity_config)) ! 2 = spec_bearing identity_matrix (1/10, 1/10) \<and>
   corners (projr (calc_tag_angles undistort_unchanged zero_row (solver_returns example_poses)
     three_corner_observation identity_config)) ! 3 = (0, 0)"
proof -
  have u: "undistort_unchanged (FiducialImageObservation.corners three_corner_observation)
             (camera_matrix (local_config identity_config))
             (distortion_coefficients (local_config identity_config)) None
             (camera_matrix (local_config identity_config))
           = Inr (FiducialImageObservation.corners three_corner_observation)"
    by (simp add: undistort_unchanged_def)
  have l: "length (FiducialImageObservation.corners three_corner_observation) < 4"
    by (simp add: three_corner_observation_def)
  have k: "linalg_inv zero_row (camera_matrix (local_config identity_config)) = Inr identity_matrix"
    by (simp add: identity_config_def linalg_inv_identity)
  have s: "solver_returns example_poses three_corner_observation identity_config = Inr example_poses"
    by (simp add: solver_returns_def)
  obtain out where o: "calc_tag_angles undistort_unchanged zero_row (solver_returns example_poses)
        three_corner_observation identity_config = Inr out"
    and len: "length (corners out) = 4"
    and rows: "\<And>i. i < length (FiducialImageObservation.corners three_corner_observation) \<Longrightarrow>
       corners out ! i =
       spec_bearing identity_matrix (FiducialImageObservation.corners three_corner_observation ! i)"
    and zeros: "\<And>i. length (FiducialImageObservation.corners three_corner_observation) \<le> i \<and> i < 4
       \<Longrightarrow> corners out ! i = (0, 0)"
    using fewer_corners_zero_rows [where undistortPoints = undistort_unchanged and zero_pivot = zero_row
        and image_observation = three_corner_observation and config_store = identity_config
        and solve_fiducial_pose = "solver_returns example_poses", OF u refl l k s]
    by auto
  have r: "corners out ! 2 = spec_bearing identity_matrix (1/10, 1/10)"
    "corners out ! 3 = (0, 0)"
    using rows [of 2] zeros [of 3] by (simp_all add: three_corner_observation_def)
  show ?thesis
    unfolding o using l len r by simp
qed

text \<open>
  C10 as stated fails: fewer than four corners and a pose solver that returns do not
  keep the call from raising. With three corners and an intrinsic matrix whose first
  row is zero, the inversion in the first round of the loop raises \<open>LinAlgError\<close>.
\<close>

theorem fewer_corners_raise_counterexample:
  "length (FiducialImageObservation.corners three_corner_observation) < 4 \<and>
   solver_returns tied_poses three_corner_observation singular_config = Inr tied_poses \<and>
   calc_tag_angles undistort_unchanged zero_row (solver_returns tied_poses)
     three_corner_observation singular_config = Inl LinAlgError"
proof -
  have k: "camera_matrix (local_config singular_config) = singular_matrix"
    by (simp add: singular_config_def)
  have u: "undistort_unchanged (FiducialImageObservation.corners three_corner_observation)
             (camera_matrix (local_config singular_config))
             (distortion_coefficients (local_config singular_config)) None
             (camera_matrix (local_config singular_config))
           = Inr (FiducialImageObservation.corners three_corner_observation)"
    by (simp add: undistort_unchanged_def)
  have n: "FiducialImageObservation.corners three_corner_observation \<noteq> []"
    by (simp add: three_corner_observation_def)
  have "calc_tag_angles undistort_unchanged zero_row (solver_returns tied_poses)
     three_corner_observation singular_config = Inl LinAlgError"
    by (rule calc_tag_angles_singular [where undistortPoints = undistort_unchanged
          and zero_pivot = zero_row and image_observation = three_corner_observation
          and config_store = singular_config, OF u _ n])
      (simp add: k linalg_inv_singular_matrix)
  then show ?thesis
    by (simp add: three_corner_observation_def solver_returns_def)
qed

subsection \<open>Errors\<close>

text \<open>
  C4 (as amended). The call has no check of the intrinsic matrix and no
  \<open>InvalidCalibration\<close>; what it does with a singular matrix is what
  \<^verbatim>\<open>np.linalg.inv\<close> does with it. When \<^verbatim>\<open>np.linalg.inv\<close> rejects the matrix and
  there is at least one undistorted corner, the call raises \<open>LinAlgError\<close>, in the
  first round of the loop, and returns no observation. When \<^verbatim>\<open>np.linalg.inv\<close> lets
  the matrix pass, singular or not, nothing is raised on its account: with at most four
  undistorted corners and the pose solver returning, an observation is returned.
\<close>

theorem rejected_matrix_raises_LinAlgError:
  assumes "undistortPoints (FiducialImageObservation.corners image_observation)
             (camera_matrix (local_config config_store))
             (distortion_coefficients (local_config config_store)) None
             (camera_matrix (local_config config_store)) = Inr und"
  shows "(zero_pivot (camera_matrix (local_config config_store)) \<longrightarrow> und \<noteq> [] \<longrightarrow>
            calc_tag_angles undistortPoints zero_pivot solve_fiducial_pose image_observation
              config_store = Inl LinAlgError) \<and>
         (\<not> zero_pivot (camera_matrix (local_config config_store)) \<longrightarrow> length und \<le> 4 \<longrightarrow>
            (\<forall>p. solve_fiducial_pose image_observation config_store = Inr p \<longrightarrow>
               (\<exists>out. calc_tag_angles undistortPoints zero_pivot solve_fiducial_pose
                  image_observation config_store = Inr out)))"
proof (intro conjI impI allI)
  assume "zero_pivot (camera_matrix (local_config config_store))" and "und \<noteq> []"
  then show "calc_tag_angles undistortPoints zero_pivot solve_fiducial_pose image_observation
              config_store = Inl LinAlgError"
    using calc_tag_angles_singular [where undistortPoints = undistortPoints
        and zero_pivot = zero_pivot and image_observation = image_observation
        and config_store = config_store, OF assms linalg_inv_singular]
    by simp
next
  fix p
  assume z: "\<not> zero_pivot (camera_matrix (local_config config_store))"
    and l: "length und \<le> 4"
    and p: "solve_fiducial_pose image_observation config_store = Inr p"
  obtain Kinv where
    k: "linalg_inv zero_pivot (camera_matrix (local_config config_store)) = Inr Kinv"
    using linalg_inv_passes [where zero_pivot = zero_pivot, OF z] by blast
  show "\<exists>out. calc_tag_angles undistortPoints zero_pivot solve_fiducial_pose
                  image_observation config_store = Inr out"
    using calc_tag_angles_fits [where undistortPoints = undistortPoints
        and zero_pivot = zero_pivot and image_observation = image_observation
        and config_store = config_store and solve_fiducial_pose = solve_fiducial_pose,
        OF assms k l] p
    by simp
qed

text \<open>
  The two halves at concrete inputs: the matrix with a zero row is rejected, also with
  five corners (the inversion comes before the row is written); the singular matrix of
  proportional rows passes, and the call on the square returns an observation.
\<close>

theorem rejected_matrix_raises_LinAlgError_witness:
  "calc_tag_angles undistort_unchanged zero_row (solver_returns example_poses)
     five_corner_observation singular_config = Inl LinAlgError \<and>
   det3 (camera_matrix (local_config proportional_rows_config)) = 0 \<and>
   \<not> isl (calc_tag_angles undistort_unchanged zero_row (solver_returns example_poses)
     square_observation proportional_rows_config)"
proof -
  have u5: "undistort_unchanged (FiducialImageObservation.corners five_corner_observation)
             (camera_matrix (local_config singular_config))
             (distortion_coefficients (local_config singular_config)) None
             (camera_matrix (local_config singular_config))
           = Inr (FiducialImageObservation.corners five_corner_observation)"
    by (simp add: undistort_unchanged_def)
  have z5: "zero_row (camera_matrix (local_config singular_config))"
    by (simp add: singular_config_def singular_matrix_def zero_row_def)
  have n5: "FiducialImageObservation.corners five_corner_observation \<noteq> []"
    by (simp add: five_corner_observation_def)
  have a: "calc_tag_angles undistort_unchanged zero_row (solver_returns example_poses)
     five_corner_observation singular_config = Inl LinAlgError"
    using rejected_matrix_raises_LinAlgError [where undistortPoints = undistort_unchanged
        and zero_pivot = zero_row and image_observation = five_corner_observation
        and config_store = singular_config
        and solve_fiducial_pose = "solver_returns example_poses", OF u5] z5 n5
    by blast
  have u4: "undistort_unchanged (FiducialImageObservation.corners square_observation)
             (camera_matrix (local_config proportional_rows_config))
             (distortion_coefficients (local_config proportional_rows_config)) None
             (camera_matrix (local_config proportional_rows_config))
           = Inr (FiducialImageObservation.corners square_observation)"
    by (simp add: undistort_unchanged_def)
  have z4: "\<not> zero_row (camera_matrix (local_config proportional_rows_config))"
    by (simp add: proportional_rows_config_def proportional_rows_matrix_def zero_row_def)
  have l4: "length (FiducialImageObservation.corners square_observation) \<le> 4"
    by (simp add: square_observation_def)
  have s4: "solver_returns example_poses square_observation proportional_rows_config
            = Inr example_poses"
    by (simp add: solver_returns_def)
  have b: "\<exists>out. calc_tag_angles undistort_unchanged zero_row (solver_returns example_poses)
     square_observation proportional_rows_config = Inr out"
    using rejected_matrix_raises_LinAlgError [where undistortPoints = undistort_unchanged
        and zero_pivot = zero_row and image_observation = square_observation
        and config_store = proportional_rows_config
        and solve_fiducial_pose = "solver_returns example_poses", OF u4] z4 l4 s4
    by blast
  have d: "det3 (camera_matrix (local_config proportional_rows_config)) = 0"
    by (simp add: proportional_rows_config_def proportional_rows_matrix_def det3_def)
  show ?thesis using a b d by auto
qed

text \<open>
  C4 as stated fails: with an intrinsic matrix whose first row is zero, the call on the
  square of four corners raises \<open>LinAlgError\<close>, which is not \<open>InvalidCalibration\<close>.
\<close>

theorem singular_matrix_InvalidCalibration_counterexample:
  "det3 (camera_matrix (local_config singular_config)) = 0 \<and>
   calc_tag_angles undistort_unchanged zero_row (solver_returns example_poses)
     square_observation singular_config = Inl LinAlgError \<and>
   calc_tag_angles undistort_unchanged zero_row (solver_returns example_poses)
     square_observation singular_config \<noteq> Inl InvalidCalibration"
proof -
  have k: "camera_matrix (local_config singular_config) = singular_matrix"
    by (simp add: singular_config_def)
  have d: "det3 (camera_matrix (local_config singular_config)) = 0"
    by (simp add: k singular_matrix_def det3_def)
  have u: "undistort_unchanged (FiducialImageObservation.corners square_observation)
             (camera_matrix (local_config singular_config))
             (distortion_coefficients (local_config singular_config)) None
             (camera_matrix (local_config singular_config))
           = Inr (FiducialImageObservation.corners square_observation)"
    by (simp add: undistort_unchanged_def)
  have n: "FiducialImageObservation.corners square_observation \<noteq> []"
    by (simp add: square_observation_def)
  have "calc_tag_angles undistort_unchanged zero_row (solver_returns example_poses)
     square_observation singular_config = Inl LinAlgError"
    by (rule calc_tag_angles_singular [where undistortPoints = undistort_unchanged
          and zero_pivot = zero_row
          and image_observation = square_observation and config_store = singular_config, OF u _ n])
      (simp add: k linalg_inv_singular_matrix)
  then show ?thesis using d by simp
qed

text \<open>
  C5 (as amended). The corner count is not examined. With an intrinsic matrix that
  \<^verbatim>\<open>np.linalg.inv\<close> inverts, more than four undistorted corners raise \<open>IndexError\<close>, when the fifth row of the
  bearing array is written, and no observation is returned; fewer than four raise
  nothing on account of their number: when the pose solver returns, so does the call,
  with the tag id of the image observation copied into the result.
\<close>

theorem corner_count_not_validated:
  assumes "undistortPoints (FiducialImageObservation.corners image_observation)
             (camera_matrix (local_config config_store))
             (distortion_coefficients (local_config config_store)) None
             (camera_matrix (local_config config_store)) = Inr und"
    and "linalg_inv zero_pivot (camera_matrix (local_config config_store)) = Inr Kinv"
  shows "(4 < length und \<longrightarrow>
            calc_tag_angles undistortPoints zero_pivot solve_fiducial_pose image_observation config_store =
            Inl IndexError) \<and>
         (length und < 4 \<longrightarrow>
            (\<forall>p. solve_fiducial_pose image_observation config_store = Inr p \<longrightarrow>
               (\<exists>out. calc_tag_angles undistortPoints zero_pivot solve_fiducial_pose image_observation
                  config_store = Inr out \<and>
                  tag_id out = FiducialImageObservation.tag_id image_observation)))"
proof (intro conjI impI allI)
  assume "4 < length und"
  then show "calc_tag_angles undistortPoints zero_pivot solve_fiducial_pose image_observation config_store =
            Inl IndexError"
    using calc_tag_angles_overflow [where undistortPoints = undistortPoints and zero_pivot = zero_pivot
        and image_observation = image_observation and config_store = config_store, OF assms]
    by simp
next
  fix p
  assume "length und < 4" and "solve_fiducial_pose image_observation config_store = Inr p"
  then show "\<exists>out. calc_tag_angles undistortPoints zero_pivot solve_fiducial_pose image_observation
                  config_store = Inr out \<and>
                  tag_id out = FiducialImageObservation.tag_id image_observation"
    using calc_tag_angles_fits [where undistortPoints = undistortPoints and zero_pivot = zero_pivot
        and image_observation = image_observation and config_store = config_store
        and solve_fiducial_pose = solve_fiducial_pose, OF assms]
    by simp
qed

theorem corner_count_not_validated_witness:
  "calc_tag_angles undistort_unchanged zero_row (solver_returns example_poses)
     five_corner_observation identity_config = Inl IndexError \<and>
   \<not> isl (calc_tag_angles undistort_unchanged zero_row (solver_returns example_poses)
     three_corner_observation identity_config) \<and>
   tag_id (projr (calc_tag_angles undistort_unchanged zero_row (solver_returns example_poses)
     three_corner_observation identity_config)) = 7"
proof -
  have k: "linalg_inv zero_row (camera_matrix (local_config identity_config)) = Inr identity_matrix"
    by (simp add: identity_config_def linalg_inv_identity)
  have u5: "undistort_unchanged (FiducialImageObservation.corners five_corner_observation)
             (camera_matrix (local_config identity_config))
             (distortion_coefficients (local_config identity_config)) None
             (camera_matrix (local_config identity_config))
           = Inr (FiducialImageObservation.corners five_corner_observation)"
    by (simp add: undistort_unchanged_def)
  have u3: "undistort_unchanged (FiducialImageObservation.corners three_corner_observation)
             (camera_matrix (local_config identity_config))
             (distortion_coefficients (local_config identity_config)) None
             (camera_matrix (local_config identity_config))
           = Inr (FiducialImageObservation.corners three_corner_observation)"
    by (simp add: undistort_unchanged_def)
  have s: "solver_returns example_poses three_corner_observation identity_config = Inr example_poses"
    by (simp add: solver_returns_def)
  have five: "calc_tag_angles undistort_unchanged zero_row (solver_returns example_poses)
     five_corner_observation identity_config = Inl IndexError"
    using corner_count_not_validated [where undistortPoints = undistort_unchanged and zero_pivot = zero_row
        and image_observation = five_corner_observation and config_store = identity_config
        and solve_fiducial_pose = "solver_returns example_poses", OF u5 k]
    by (simp add: five_corner_observation_def)
  have three: "\<exists>out. calc_tag_angles undistort_unchanged zero_row (solver_returns example_poses)
     three_corner_observation identity_config = Inr out \<and>
     tag_id out = FiducialImageObservation.tag_id three_corner_observation"
    using corner_count_not_validated [where undistortPoints = undistort_unchanged and zero_pivot = zero_row
        and image_observation = three_corner_observation and config_store = identity_config
        and solve_fiducial_pose = "solver_returns example_poses", OF u3 k] s
    by (simp add: three_corner_observation_def)
  show ?thesis using five three by (auto simp: three_corner_observation_def)
qed

text \<open>
  C5 as stated fails: an image observation of three corners is not rejected, the call
  returns an observation; and one of five corners is rejected with \<open>IndexError\<close>, not
  with \<open>InvalidObservation\<close>.
\<close>

theorem corner_count_InvalidObservation_counterexample:
  "length (FiducialImageObservation.corners three_corner_observation) \<noteq> 4 \<and>
   \<not> isl (calc_tag_angles undistort_unchanged zero_row (solver_returns example_poses)
     three_corner_observation identity_config) \<and>
   length (FiducialImageObservation.corners five_corner_observation) \<noteq> 4 \<and>
   calc_tag_angles undistort_unchanged zero_row (solver_returns example_poses)
     five_corner_observation identity_config \<noteq> Inl InvalidObservation"
  by (simp add: three_corner_result five_corner_result)
    (simp add: three_corner_observation_def five_corner_observation_def)

text \<open>
  C9. When the pose solver fails, the call returns no observation, whatever the other
  inputs are; and whenever the solver is reached, that is, undistortion and the loop
  over the corners have completed, the exception the caller receives is the solver's
  own, unchanged. (By \<open>calc_angles_zeros\<close> the loop completes on every input with an
  intrinsic matrix that \<^verbatim>\<open>np.linalg.inv\<close> inverts and at most four undistorted
  corners.)
\<close>

theorem pose_failure_propagated:
  assumes "solve_fiducial_pose image_observation config_store = Inl e"
  shows "(\<forall>out. calc_tag_angles undistortPoints zero_pivot solve_fiducial_pose image_observation config_store
            \<noteq> Inr out) \<and>
         (\<forall>und angles.
            undistortPoints (FiducialImageObservation.corners image_observation)
              (camera_matrix (local_config config_store))
              (distortion_coefficients (local_config config_store)) None
              (camera_matrix (local_config config_store)) = Inr und \<longrightarrow>
            calc_angles zero_pivot (camera_matrix (local_config config_store)) 0 und (replicate 4 (0, 0))
              = Inr angles \<longrightarrow>
            calc_tag_angles undistortPoints zero_pivot solve_fiducial_pose image_observation config_store
              = Inl e)"
proof (intro conjI allI impI)
  fix out
  show "calc_tag_angles undistortPoints zero_pivot solve_fiducial_pose image_observation config_store
          \<noteq> Inr out"
  proof
    assume "calc_tag_angles undistortPoints zero_pivot solve_fiducial_pose image_observation config_store
              = Inr out"
    then show False
      using assms by (auto simp: calc_tag_angles_def Let_def split: sum.splits)
  qed
next
  fix und angles
  assume "undistortPoints (FiducialImageObservation.corners image_observation)
              (camera_matrix (local_config config_store))
              (distortion_coefficients (local_config config_store)) None
              (camera_matrix (local_config config_store)) = Inr und"
    and "calc_angles zero_pivot (camera_matrix (local_config config_store)) 0 und (replicate 4 (0, 0))
              = Inr angles"
  then show "calc_tag_angles undistortPoints zero_pivot solve_fiducial_pose image_observation config_store
              = Inl e"
    using assms by (simp add: calc_tag_angles_def Let_def)
qed

theorem pose_failure_propagated_witness:
  "calc_tag_angles undistort_unchanged zero_row (solver_raises PoseSolveFailure)
     square_observation identity_config = Inl PoseSolveFailure"
proof -
  have s: "solver_raises PoseSolveFailure square_observation identity_config = Inl PoseSolveFailure"
    by (simp add: solver_raises_def)
  have u: "undistort_unchanged (FiducialImageObservation.corners square_observation)
             (camera_matrix (local_config identity_config))
             (distortion_coefficients (local_config identity_config)) None
             (camera_matrix (local_config identity_config))
           = Inr (FiducialImageObservation.corners square_observation)"
    by (simp add: undistort_unchanged_def)
  have k: "camera_matrix (local_config identity_config) = identity_matrix"
    by (simp add: identity_config_def)
  show ?thesis
    using pose_failure_propagated [where zero_pivot = zero_row and solve_fiducial_pose = "solver_raises PoseSolveFailure"
        and image_observation = square_observation and config_store = identity_config
        and undistortPoints = undistort_unchanged, OF s] u square_angles
    unfolding k by blast
qed

end
